theory Spec2Isabelle
  imports Main
begin

section \<open>Error values\<close>

text \<open>
  Go errors are interface values that may wrap another error (\<^verbatim>\<open>Unwrap\<close>); \<^verbatim>\<open>errors.As\<close>
  and \<^verbatim>\<open>errors.Is\<close> walk that chain from the outside in. The errors that reach
  \<^verbatim>\<open>apis/base.go\<close> are modelled as a datatype of non-nil pointers:
  \<^item> \<open>ApiErrorPtr code message rawData\<close>: a \<^verbatim>\<open>*ApiError\<close> (it wraps nothing);
  \<^item> \<open>HTTPErrorPtr code message internal\<close>: a \<^verbatim>\<open>*echo.HTTPError\<close>, whose
    \<^verbatim>\<open>Unwrap\<close> gives \<^verbatim>\<open>Internal\<close>;
  \<^item> \<open>ErrNotFound\<close>: the variable \<^verbatim>\<open>echo.ErrNotFound\<close>, itself a
    \<^verbatim>\<open>*echo.HTTPError\<close> (404, "Not Found", no internal error). It is a constructor of
    its own because \<^verbatim>\<open>errors.Is\<close> compares pointers, not contents;
  \<^item> \<open>ErrNoRows\<close>: the variable \<^verbatim>\<open>sql.ErrNoRows\<close>;
  \<^item> \<open>EscapeError s\<close>: \<^verbatim>\<open>url.EscapeError\<close>;
  \<^item> \<open>ErrorString s\<close>: an \<^verbatim>\<open>errors.New(s)\<close>;
  \<^item> \<open>WrapError prefix e\<close>: \<^verbatim>\<open>fmt.Errorf(prefix + "%w", e)\<close>.
  The fields of \<^verbatim>\<open>*ApiError\<close> and \<^verbatim>\<open>*echo.HTTPError\<close> sit in the constructors because
  \<open>rawData\<close> and \<open>Internal\<close> hold errors again; the records \<open>api_error\<close> and
  \<open>http_error\<close> below give them their names back.
\<close>

datatype message = MsgNil | MsgString string | MsgInt int

datatype any = AnyNil | AnyString string | AnyError go_error
and go_error =
    ApiErrorPtr int string any
  | HTTPErrorPtr int message "go_error option"
  | ErrNotFound
  | ErrNoRows
  | EscapeError string
  | ErrorString string
  | WrapError string go_error

text \<open>
  Modelled from the spec: the struct \<^verbatim>\<open>ApiError\<close> (package \<^verbatim>\<open>apis\<close>, file not among the
  sources). The spec gives it as \<open>{code: int, message: string, rawData: optional<any>}\<close>;
  a missing \<open>rawData\<close> is \<open>AnyNil\<close>.
\<close>

record api_error =
  Code :: int
  Message :: string
  rawData :: any

text \<open>The fields of \<^verbatim>\<open>echo.HTTPError\<close> that the handler reads.\<close>

record http_error =
  HCode :: int
  HMessage :: message
  Internal :: "go_error option"

text \<open>
  \<^verbatim>\<open>errors.As(err, &apiErr)\<close> with \<^verbatim>\<open>apiErr *ApiError\<close>: the first \<^verbatim>\<open>*ApiError\<close> of
  the chain.
\<close>

fun errors_As_ApiError :: "go_error \<Rightarrow> api_error option" where
  "errors_As_ApiError (ApiErrorPtr c m d) = Some \<lparr>Code = c, Message = m, rawData = d\<rparr>"
| "errors_As_ApiError (HTTPErrorPtr c m None) = None"
| "errors_As_ApiError (HTTPErrorPtr c m (Some e)) = errors_As_ApiError e"
| "errors_As_ApiError (WrapError p e) = errors_As_ApiError e"
| "errors_As_ApiError ErrNotFound = None"
| "errors_As_ApiError ErrNoRows = None"
| "errors_As_ApiError (EscapeError s) = None"
| "errors_As_ApiError (ErrorString s) = None"

text \<open>
  \<^verbatim>\<open>errors.As(err, &v)\<close> with \<^verbatim>\<open>v *echo.HTTPError\<close>: the first \<^verbatim>\<open>*echo.HTTPError\<close>
  of the chain, as the pointer found and the struct it points to.
\<close>

fun errors_As_HTTPError :: "go_error \<Rightarrow> (go_error \<times> http_error) option" where
  "errors_As_HTTPError (HTTPErrorPtr c m i) =
     Some (HTTPErrorPtr c m i, \<lparr>HCode = c, HMessage = m, Internal = i\<rparr>)"
| "errors_As_HTTPError ErrNotFound =
     Some (ErrNotFound, \<lparr>HCode = 404, HMessage = MsgString ''Not Found'', Internal = None\<rparr>)"
| "errors_As_HTTPError (WrapError p e) = errors_As_HTTPError e"
| "errors_As_HTTPError (ApiErrorPtr c m d) = None"
| "errors_As_HTTPError ErrNoRows = None"
| "errors_As_HTTPError (EscapeError s) = None"
| "errors_As_HTTPError (ErrorString s) = None"

text \<open>
  \<^verbatim>\<open>errors.Is(err, target)\<close> for a target that is one of the two package variables:
  some error of the chain is that very variable.
\<close>

fun errors_Is :: "go_error \<Rightarrow> go_error \<Rightarrow> bool" where
  "errors_Is (WrapError p e) target = errors_Is e target"
| "errors_Is (HTTPErrorPtr c m (Some e)) target = errors_Is e target"
| "errors_Is (HTTPErrorPtr c m None) target = False"
| "errors_Is (ApiErrorPtr c m d) target = False"
| "errors_Is ErrNotFound target = (target = ErrNotFound)"
| "errors_Is ErrNoRows target = (target = ErrNoRows)"
| "errors_Is (EscapeError s) target = False"
| "errors_Is (ErrorString s) target = False"

section \<open>Constructors of ApiError\<close>

text \<open>
  Modelled from the spec: \<^verbatim>\<open>NewApiError\<close>, \<^verbatim>\<open>NewNotFoundError\<close> and
  \<^verbatim>\<open>NewBadRequestError\<close> (package \<^verbatim>\<open>apis\<close>, file not among the sources). The spec says
  that wrapping keeps the code and the message rendered as plain text, that Not-Found is
  404 and Bad-Request is 400, and that the third argument is the raw diagnostic payload.
  What message the last two give for an empty one the spec leaves open; it is kept as
  passed here and no result below depends on it.
\<close>

definition NewApiError :: "int \<Rightarrow> string \<Rightarrow> any \<Rightarrow> api_error" where
  "NewApiError status msg data = \<lparr>Code = status, Message = msg, rawData = data\<rparr>"

definition NewNotFoundError :: "string \<Rightarrow> any \<Rightarrow> api_error" where
  "NewNotFoundError msg data = NewApiError 404 msg data"

definition NewBadRequestError :: "string \<Rightarrow> any \<Rightarrow> api_error" where
  "NewBadRequestError msg data = NewApiError 400 msg data"

section \<open>Rendering a message\<close>

text \<open>
  \<^verbatim>\<open>strconv.Itoa\<close>, which is what \<^verbatim>\<open>%v\<close> prints for an integer: the decimal digits,
  read from a table as in \<^verbatim>\<open>strconv\<close>.
\<close>

function digits :: "nat \<Rightarrow> string" where
  "digits n =
     (if n < 10 then [''0123456789'' ! n]
      else digits (n div 10) @ [''0123456789'' ! (n mod 10)])"
  by pat_completeness auto
termination
  by (relation "measure id") auto

definition Itoa :: "int \<Rightarrow> string" where
  "Itoa i = (if i < 0 then CHR ''-'' # digits (nat (- i)) else digits (nat i))"

text \<open>\<^verbatim>\<open>fmt.Sprintf("%v", v.Message)\<close>.\<close>

fun Sprintf_v :: "message \<Rightarrow> string" where
  "Sprintf_v MsgNil = ''<nil>''"
| "Sprintf_v (MsgString s) = s"
| "Sprintf_v (MsgInt i) = Itoa i"

section \<open>The error classifier\<close>

text \<open>
  Lines 62 to 84 of \<^verbatim>\<open>apis/base.go\<close>: the \<^verbatim>\<open>apiErr\<close> that the handler settles on, and
  the lines it prints with \<^verbatim>\<open>log.Println\<close> on the way (each line is the list of
  arguments printed). \<open>debug\<close> is \<^verbatim>\<open>app.IsDebug()\<close>.
\<close>

type_synonym log = "any list list"

definition classify :: "bool \<Rightarrow> go_error \<Rightarrow> log \<Rightarrow> api_error \<times> log" where
  "classify debug err lg =
     (case errors_As_ApiError err of
        Some apiErr \<Rightarrow>
          (apiErr, if debug \<and> rawData apiErr \<noteq> AnyNil then lg @ [[rawData apiErr]] else lg)
      | None \<Rightarrow>
          (case errors_As_HTTPError err of
             Some (v, h) \<Rightarrow>
               (NewApiError (HCode h) (Sprintf_v (HMessage h)) (AnyError v),
                case Internal h of
                  Some i \<Rightarrow> if debug then lg @ [[AnyError i]] else lg
                | None \<Rightarrow> lg)
           | None \<Rightarrow>
               (if errors_Is err ErrNoRows
                then NewNotFoundError [] (AnyError err)
                else NewBadRequestError [] (AnyError err),
                if debug then lg @ [[AnyError err]] else lg)))"

section \<open>The response\<close>

datatype json = JNumber int | JString string | JObject "(string \<times> json) list"

datatype body = NoBody | JSONBody json | FileBody string

text \<open>
  What the handlers use of an \<^verbatim>\<open>echo.Context\<close>: the request's method, the response's
  \<^verbatim>\<open>Committed\<close> flag, and the writes made on the response so far, oldest first, each
  with its status code. \<open>ConnErr\<close> stands for the connection: when it is \<open>Some e\<close>,
  writing a body to the client fails with \<open>e\<close>. \<open>Panic\<close> is the value with which a
  write on the response has panicked, if one has: \<^verbatim>\<open>net/http\<close> refuses a status code
  outside 100 to 999 with a panic, before anything is written. A panic of the terminal
  action leaves \<^verbatim>\<open>Trigger\<close> and the error handler at once; the functions below record
  it here and the handler stops on it.
\<close>

record http_context =
  Method :: string
  Committed :: bool
  Writes :: "(int \<times> body) list"
  ConnErr :: "go_error option"
  Panic :: "string option"

text \<open>The check of \<^verbatim>\<open>net/http\<close> on a status code, and the value of its panic.\<close>

definition valid_status :: "int \<Rightarrow> bool" where
  "valid_status code = (100 \<le> code \<and> code \<le> 999)"

definition invalid_WriteHeader_code :: "int \<Rightarrow> string" where
  "invalid_WriteHeader_code code = ''invalid WriteHeader code '' @ Itoa code"

text \<open>
  \<^verbatim>\<open>c.NoContent(code)\<close> hands the code to the response's \<^verbatim>\<open>WriteHeader\<close> and returns nil.
  On a committed response echo's \<^verbatim>\<open>WriteHeader\<close> only warns. Otherwise the header goes
  to \<^verbatim>\<open>net/http\<close>, which panics on a code outside 100 to 999; the response is committed
  only after that call has returned.
\<close>

definition NoContent :: "int \<Rightarrow> http_context \<Rightarrow> go_error option \<times> http_context" where
  "NoContent code c =
     (None, if Committed c then c
            else if valid_status code
            then c\<lparr>Committed := True, Writes := Writes c @ [(code, NoBody)]\<rparr>
            else c\<lparr>Panic := Some (invalid_WriteHeader_code code)\<rparr>)"

text \<open>
  Modelled from the spec: the JSON form of an \<^verbatim>\<open>ApiError\<close> (its struct tags and the
  serializer \<^verbatim>\<open>rest.Serializer\<close> are not among the sources). The spec gives the wire
  format \<open>{"code": <int>, "message": <string>}\<close> and says that \<open>rawData\<close> is never
  included.
\<close>

definition api_error_json :: "api_error \<Rightarrow> json" where
  "api_error_json a = JObject [(''code'', JNumber (Code a)), (''message'', JString (Message a))]"

text \<open>
  \<^verbatim>\<open>c.JSON(code, apiErr)\<close> sets the response's status to the code and writes the
  serialized value. The first write on a response sends the header first: echo's
  \<^verbatim>\<open>Response.Write\<close> takes 200 for a status of 0, and \<^verbatim>\<open>net/http\<close> panics on a status
  outside 100 to 999. The response is committed from then on, and the error of the
  write, if any, is returned. On a committed response the bytes are written with no
  header.
\<close>

definition JSON :: "int \<Rightarrow> api_error \<Rightarrow> http_context \<Rightarrow> go_error option \<times> http_context" where
  "JSON code a c =
     (if Committed c
      then (ConnErr c, c\<lparr>Writes := Writes c @ [(code, JSONBody (api_error_json a))]\<rparr>)
      else
        (let status = (if code = 0 then 200 else code) in
         if valid_status status
         then (ConnErr c,
               c\<lparr>Committed := True,
                 Writes := Writes c @ [(status, JSONBody (api_error_json a))]\<rparr>)
         else (None, c\<lparr>Panic := Some (invalid_WriteHeader_code status)\<rparr>)))"

section \<open>Hooks\<close>

text \<open>
  Modelled from the spec: \<^verbatim>\<open>core.ApiErrorEvent\<close> (package \<^verbatim>\<open>core\<close>, not among the
  sources), \<open>{httpContext, error: ApiError}\<close>. The event is handed to every hook as a
  pointer, and its two fields are pointers again, so the record holds what a hook can
  reach and change through it, and is passed from hook to hook:
  \<^item> \<open>HttpContext\<close>: the context of the request, the object that the handler's \<^verbatim>\<open>c\<close>
    and the event's field both point to (a hook is taken not to put another context
    into the event);
  \<^item> \<open>Error\<close>: the event's field \<^verbatim>\<open>Error\<close>, which a hook may set to another error;
  \<^item> \<open>ApiErr\<close>: the object that the handler's variable \<^verbatim>\<open>apiErr\<close> points to. The
    event's \<^verbatim>\<open>Error\<close> points to it at first, so a hook can change it in place. It is
    this object that the terminal action reads, whatever the event's field has become.
\<close>

record api_error_event =
  HttpContext :: http_context
  Error :: api_error
  ApiErr :: api_error

text \<open>
  A hook returns nil or an error, and leaves the event as it has changed it. Hooks are
  taken to return: a hook that panics is not modelled.
\<close>

type_synonym hook = "api_error_event \<Rightarrow> go_error option \<times> api_error_event"

text \<open>
  Modelled from the spec: \<^verbatim>\<open>Hook.Trigger\<close> (package \<^verbatim>\<open>tools/hook\<close>, not among the
  sources). The spec: the registered callbacks are kept in insertion order and invoked
  synchronously in that order, as one composed operation that ends in the terminal
  action given with the call; the pass completes without failure when every callback
  and the terminal action did, and a failure ends it.
\<close>

fun run_handlers :: "hook list \<Rightarrow> api_error_event \<Rightarrow> go_error option \<times> api_error_event" where
  "run_handlers [] e = (None, e)"
| "run_handlers (h # hs) e =
     (case h e of
        (Some err, e') \<Rightarrow> (Some err, e')
      | (None, e') \<Rightarrow> run_handlers hs e')"

definition Trigger :: "hook list \<Rightarrow> api_error_event \<Rightarrow> hook list \<Rightarrow> go_error option \<times> api_error_event" where
  "Trigger handlers data oneOffHandlers = run_handlers (handlers @ oneOffHandlers) data"

text \<open>What the handler uses of \<^verbatim>\<open>core.App\<close>.\<close>

record app =
  IsDebug :: bool
  OnBeforeApiError :: "hook list"
  OnAfterApiError :: "hook list"

section \<open>The error handler\<close>

text \<open>
  The function given to \<^verbatim>\<open>Trigger\<close> at lines 91 to 102: the terminal action of the
  before pass. It reads the flag through \<^verbatim>\<open>c\<close>, the method through the event's context,
  and the code and the body from \<^verbatim>\<open>apiErr\<close>, not from the event's \<^verbatim>\<open>Error\<close>.
\<close>

definition send_error_response :: hook where
  "send_error_response e =
     (if Committed (HttpContext e) then (None, e)
      else if Method (HttpContext e) = ''HEAD''
      then (case NoContent (Code (ApiErr e)) (HttpContext e) of
              (r, c') \<Rightarrow> (r, e\<lparr>HttpContext := c'\<rparr>))
      else (case JSON (Code (ApiErr e)) (ApiErr e) (HttpContext e) of
              (r, c') \<Rightarrow> (r, e\<lparr>HttpContext := c'\<rparr>)))"

text \<open>What \<^verbatim>\<open>log.Println\<close> is given for an \<^verbatim>\<open>error\<close> variable, which may be nil.\<close>

definition error_arg :: "go_error option \<Rightarrow> any" where
  "error_arg e = (case e of None \<Rightarrow> AnyNil | Some x \<Rightarrow> AnyError x)"

text \<open>
  \<^verbatim>\<open>e.HTTPErrorHandler\<close>, lines 50 to 112. It is given the context, the error (nil is
  \<open>None\<close>) and the log so far, and returns the context and the log as it leaves them.
  When the write of the terminal action has panicked, the before pass does not return
  to the handler: nothing of lines 104 to 111 runs.
\<close>

definition HTTPErrorHandler ::
  "app \<Rightarrow> http_context \<Rightarrow> go_error option \<Rightarrow> log \<Rightarrow> http_context \<times> log" where
  "HTTPErrorHandler ap c err lg =
     (case err of
        None \<Rightarrow> (c, lg)
      | Some er \<Rightarrow>
          if Committed c
          then (c, if IsDebug ap
                   then lg @ [[AnyString ''HTTPErrorHandler response was already committed:'',
                               AnyError er]]
                   else lg)
          else
            (case classify (IsDebug ap) er lg of
               (apiErr, lg1) \<Rightarrow>
                 (case Trigger (OnBeforeApiError ap)
                         \<lparr>HttpContext = c, Error = apiErr, ApiErr = apiErr\<rparr>
                         [send_error_response] of
                    (hookErr, event1) \<Rightarrow>
                      if hookErr = None
                      then (if Panic (HttpContext event1) \<noteq> None
                            then (HttpContext event1, lg1)
                            else
                              (case Trigger (OnAfterApiError ap) event1 [] of
                                 (err2, event2) \<Rightarrow>
                                   (HttpContext event2,
                                    if err2 \<noteq> None \<and> IsDebug ap
                                    then lg1 @ [[error_arg hookErr]]
                                    else lg1)))
                      else if IsDebug ap
                      then (HttpContext event1, lg1 @ [[error_arg hookErr]])
                      else (HttpContext event1, lg1))))"

section \<open>Strings and paths\<close>

text \<open>\<^verbatim>\<open>strings.HasPrefix\<close>, \<^verbatim>\<open>strings.HasSuffix\<close> and \<^verbatim>\<open>strings.TrimPrefix\<close>.\<close>

definition HasPrefix :: "string \<Rightarrow> string \<Rightarrow> bool" where
  "HasPrefix s pre = (length pre \<le> length s \<and> take (length pre) s = pre)"

definition HasSuffix :: "string \<Rightarrow> string \<Rightarrow> bool" where
  "HasSuffix s suf = (length suf \<le> length s \<and> drop (length s - length suf) s = suf)"

definition TrimPrefix :: "string \<Rightarrow> string \<Rightarrow> string" where
  "TrimPrefix s pre = (if HasPrefix s pre then drop (length pre) s else s)"

text \<open>
  \<^verbatim>\<open>url.PathUnescape\<close>: every \<^verbatim>\<open>%XX\<close> becomes the byte it names; a \<^verbatim>\<open>%\<close> that is not
  followed by two hexadecimal digits is an \<^verbatim>\<open>EscapeError\<close> that quotes it (at most three
  bytes). A \<^verbatim>\<open>+\<close> stays as it is.
\<close>

definition ishex :: "char \<Rightarrow> bool" where
  "ishex c = (let n = (of_char c :: nat) in
     (48 \<le> n \<and> n \<le> 57) \<or> (97 \<le> n \<and> n \<le> 102) \<or> (65 \<le> n \<and> n \<le> 70))"

definition unhex :: "char \<Rightarrow> nat" where
  "unhex c = (let n = (of_char c :: nat) in
     if 48 \<le> n \<and> n \<le> 57 then n - 48
     else if 97 \<le> n \<and> n \<le> 102 then n - 97 + 10
     else if 65 \<le> n \<and> n \<le> 70 then n - 65 + 10
     else 0)"

fun PathUnescape :: "string \<Rightarrow> go_error + string" where
  "PathUnescape [] = Inr []"
| "PathUnescape (c # cs) =
     (if c = CHR ''%''
      then (case cs of
              a # b # rest \<Rightarrow>
                if ishex a \<and> ishex b
                then (case PathUnescape rest of
                        Inl e \<Rightarrow> Inl e
                      | Inr t \<Rightarrow> Inr (char_of (unhex a * 16 + unhex b) # t))
                else Inl (EscapeError (take 3 (c # cs)))
            | _ \<Rightarrow> Inl (EscapeError (take 3 (c # cs))))
      else (case PathUnescape cs of
              Inl e \<Rightarrow> Inl e
            | Inr t \<Rightarrow> Inr (c # t)))"

text \<open>The elements of a path: \<^verbatim>\<open>strings.Split(s, "/")\<close>, and the way back.\<close>

fun split_slash :: "string \<Rightarrow> string list" where
  "split_slash [] = [[]]"
| "split_slash (c # cs) =
     (if c = CHR ''/'' then [] # split_slash cs
      else (case split_slash cs of
              x # xs \<Rightarrow> (c # x) # xs
            | [] \<Rightarrow> [[c]]))"

fun join_slash :: "string list \<Rightarrow> string" where
  "join_slash [] = []"
| "join_slash [x] = x"
| "join_slash (x # y # ys) = x @ CHR ''/'' # join_slash (y # ys)"

text \<open>
  \<^verbatim>\<open>filepath.Clean\<close> where the separator is \<^verbatim>\<open>/\<close>, by its documented rules: runs of
  separators count as one; every \<^verbatim>\<open>.\<close> element goes; an inner \<^verbatim>\<open>..\<close> goes together with
  the element before it, when that is not \<^verbatim>\<open>..\<close> itself; a \<^verbatim>\<open>..\<close> at the start of a rooted
  path goes; a \<^verbatim>\<open>..\<close> at the start of a path that is not rooted stays; an empty result is
  \<^verbatim>\<open>.\<close>. \<open>clean_elems rooted out xs\<close> goes through the elements \<open>xs\<close> with the elements
  kept so far in \<open>out\<close>, last first.
\<close>

fun clean_elems :: "bool \<Rightarrow> string list \<Rightarrow> string list \<Rightarrow> string list" where
  "clean_elems rooted out [] = rev out"
| "clean_elems rooted out (x # xs) =
     (if x = [] \<or> x = ''.'' then clean_elems rooted out xs
      else if x = ''..''
      then (case out of
              y # ys \<Rightarrow>
                if y \<noteq> ''..'' then clean_elems rooted ys xs
                else clean_elems rooted (x # out) xs
            | [] \<Rightarrow>
                if rooted then clean_elems rooted [] xs
                else clean_elems rooted [x] xs)
      else clean_elems rooted (x # out) xs)"

definition Clean :: "string \<Rightarrow> string" where
  "Clean path =
     (let rooted = HasPrefix path ''/'';
          out = join_slash (clean_elems rooted [] (split_slash path));
          s = (if rooted then CHR ''/'' # out else out)
      in if s = [] then ''.'' else s)"

text \<open>\<^verbatim>\<open>filepath.ToSlash\<close> and \<^verbatim>\<open>filepath.Join\<close> of two elements, where the separator is \<^verbatim>\<open>/\<close>.\<close>

definition ToSlash :: "string \<Rightarrow> string" where
  "ToSlash path = path"

definition Join :: "string \<Rightarrow> string \<Rightarrow> string" where
  "Join a b =
     (if a = [] \<and> b = [] then []
      else if a = [] then Clean b
      else if b = [] then Clean a
      else Clean (a @ CHR ''/'' # b))"

text \<open>
  \<^verbatim>\<open>fs.ValidPath\<close>: the name is \<^verbatim>\<open>.\<close>, or none of its elements is empty, \<^verbatim>\<open>.\<close> or \<^verbatim>\<open>..\<close>
  (so it neither starts nor ends with a separator). The check that the name is UTF-8 is
  left out: more names are valid here than in Go.
\<close>

definition ValidPath :: "string \<Rightarrow> bool" where
  "ValidPath name =
     (name = ''.'' \<or>
      list_all (\<lambda>elem. elem \<noteq> [] \<and> elem \<noteq> ''.'' \<and> elem \<noteq> ''..'') (split_slash name))"

section \<open>Serving files\<close>

text \<open>
  An \<^verbatim>\<open>fs.FS\<close> is its \<^verbatim>\<open>Open\<close>: \<open>None\<close> when \<^verbatim>\<open>Open\<close> returns an error, else the file,
  of which echo asks whether it is a directory, whether it implements
  \<^verbatim>\<open>io.ReadSeeker\<close>, and its bytes.
\<close>

record fs_file =
  IsDir :: bool
  ReadSeeker :: bool
  Contents :: string

type_synonym filesystem = "string \<Rightarrow> fs_file option"

text \<open>
  \<^verbatim>\<open>http.ServeContent\<close> for a request with no range and no precondition headers: status
  200 and the bytes of the file (none for a HEAD request).
\<close>

definition ServeContent :: "http_context \<Rightarrow> string \<Rightarrow> http_context" where
  "ServeContent c content =
     c\<lparr>Committed := True,
       Writes := Writes c @ [(200, if Method c = ''HEAD'' then NoBody else FileBody content)]\<rparr>"

text \<open>
  \<^verbatim>\<open>c.FileFS(file, filesystem)\<close> of echo's default context: any error of \<^verbatim>\<open>Open\<close> is
  \<^verbatim>\<open>echo.ErrNotFound\<close>; a directory is answered with the \<^verbatim>\<open>index.html\<close> inside it; a file
  that is no \<^verbatim>\<open>io.ReadSeeker\<close> is an error of its own. \<^verbatim>\<open>Stat\<close> is taken to succeed on
  an open file.
\<close>

definition serve_file :: "fs_file \<Rightarrow> http_context \<Rightarrow> go_error option \<times> http_context" where
  "serve_file f c =
     (if \<not> ReadSeeker f then (Some (ErrorString ''file does not implement io.ReadSeeker''), c)
      else (None, ServeContent c (Contents f)))"

definition FileFS :: "string \<Rightarrow> filesystem \<Rightarrow> http_context \<Rightarrow> go_error option \<times> http_context" where
  "FileFS file filesystem c =
     (case filesystem file of
        None \<Rightarrow> (Some ErrNotFound, c)
      | Some f \<Rightarrow>
          if IsDir f
          then (case filesystem (ToSlash (Join file ''index.html'')) of
                  None \<Rightarrow> (Some ErrNotFound, c)
                | Some f' \<Rightarrow> serve_file f' c)
          else serve_file f c)"

section \<open>The static handler\<close>

text \<open>
  \<^verbatim>\<open>StaticDirectoryHandler\<close>, lines 142 to 164. \<open>p\<close> is \<^verbatim>\<open>c.PathParam("*")\<close>. The context
  is an interface in echo, so its method \<^verbatim>\<open>FileFS\<close> is an argument here (\<open>file_fs\<close>);
  \<open>FileFS\<close> above is the one of echo's own context.
\<close>

definition StaticDirectoryHandler ::
  "(string \<Rightarrow> 'fs \<Rightarrow> http_context \<Rightarrow> go_error option \<times> http_context) \<Rightarrow>
   'fs \<Rightarrow> bool \<Rightarrow> string \<Rightarrow> http_context \<Rightarrow> go_error option \<times> http_context" where
  "StaticDirectoryHandler file_fs fileSystem indexFallback p c =
     (case PathUnescape p of
        Inl err \<Rightarrow> (Some (WrapError ''failed to unescape path variable: '' err), c)
      | Inr tmpPath \<Rightarrow>
          (let name = ToSlash (Clean (TrimPrefix tmpPath ''/'')) in
           case file_fs name fileSystem c of
             (fileErr, c1) \<Rightarrow>
               (case fileErr of
                  Some fe \<Rightarrow>
                    if indexFallback \<and> errors_Is fe ErrNotFound
                    then file_fs ''index.html'' fileSystem c1
                    else (fileErr, c1)
                | None \<Rightarrow> (fileErr, c1))))"

section \<open>The trailing-slash middleware\<close>

record request =
  URLPath :: string
  RawQuery :: string
  RequestURI :: string

text \<open>The \<^verbatim>\<open>Skipper\<close> of lines 40 to 43.\<close>

definition Skipper :: "request \<Rightarrow> bool" where
  "Skipper r = (\<not> HasPrefix (URLPath r) ''/api/'')"

text \<open>
  echo's \<^verbatim>\<open>middleware.RemoveTrailingSlashWithConfig\<close> with no redirect code, as line 39
  configures it: the request as the next handler gets it. A skipped request is passed
  on as it is; otherwise a path longer than one byte that ends in \<^verbatim>\<open>/\<close> loses that byte,
  in the URL and in the request URI.
\<close>

definition RemoveTrailingSlashWithConfig :: "(request \<Rightarrow> bool) \<Rightarrow> request \<Rightarrow> request" where
  "RemoveTrailingSlashWithConfig skipper r =
     (if skipper r then r
      else
        (let path = URLPath r; qs = RawQuery r; l = int (length path) - 1 in
         if l > 0 \<and> HasSuffix path ''/''
         then (let path' = take (nat l) path;
                   uri = (if qs \<noteq> [] then path' @ CHR ''?'' # qs else path')
               in r\<lparr>RequestURI := uri, URLPath := path'\<rparr>)
         else r))"

section \<open>Writing the response once\<close>

text \<open>
  A hook keeps the write discipline when it leaves a committed response committed and
  either writes nothing or makes one write on a response that was not committed,
  committing it. \<open>wrote_at_most_once ws c\<close>: since the response held the writes \<open>ws\<close>,
  nothing or one thing has been written on it, and then it is committed.
\<close>

definition keeps_write_discipline :: "hook \<Rightarrow> bool" where
  "keeps_write_discipline h =
     (\<forall>e. (Committed (HttpContext e) \<longrightarrow> Committed (HttpContext (snd (h e)))) \<and>
          (Writes (HttpContext (snd (h e))) = Writes (HttpContext e) \<or>
           (\<not> Committed (HttpContext e) \<and> Committed (HttpContext (snd (h e))) \<and>
            (\<exists>w. Writes (HttpContext (snd (h e))) = Writes (HttpContext e) @ [w]))))"

definition wrote_at_most_once :: "(int \<times> body) list \<Rightarrow> http_context \<Rightarrow> bool" where
  "wrote_at_most_once ws c = (Writes c = ws \<or> (Committed c \<and> (\<exists>w. Writes c = ws @ [w])))"

section \<open>The shape of a cleaned path\<close>


section \<open>Results on the error handler\<close>

text \<open>
  C9. Called with a nil error, the handler returns at once: the context and the log are
  what they were, whatever the application and its hooks are, so nothing was classified,
  no hook ran and nothing was written.
\<close>

theorem HTTPErrorHandler_nil_noop:
  "HTTPErrorHandler ap c None lg = (c, lg)"
  by (simp add: HTTPErrorHandler_def)

text \<open>
  C1. The classifier gives one \<open>ApiError\<close> for every error, by the first rule that
  applies: an \<open>ApiError\<close> found in the chain is taken as it is; otherwise an
  \<^verbatim>\<open>echo.HTTPError\<close> found in the chain gives its code and its message as printed by
  \<^verbatim>\<open>%v\<close>; otherwise the code is 404 when the chain holds \<^verbatim>\<open>sql.ErrNoRows\<close> and 400
  when it does not.
\<close>

theorem classify_total_priority:
  "(\<forall>a. errors_As_ApiError err = Some a \<longrightarrow> fst (classify debug err lg) = a) \<and>
   (\<forall>v h. errors_As_ApiError err = None \<and> errors_As_HTTPError err = Some (v, h) \<longrightarrow>
      Code (fst (classify debug err lg)) = HCode h \<and>
      Message (fst (classify debug err lg)) = Sprintf_v (HMessage h)) \<and>
   (errors_As_ApiError err = None \<and> errors_As_HTTPError err = None \<and> errors_Is err ErrNoRows \<longrightarrow>
      Code (fst (classify debug err lg)) = 404) \<and>
   (errors_As_ApiError err = None \<and> errors_As_HTTPError err = None \<and> \<not> errors_Is err ErrNoRows \<longrightarrow>
      Code (fst (classify debug err lg)) = 400)"
proof (cases "errors_As_ApiError err")
  case (Some a)
  then show ?thesis by (simp add: classify_def)
next
  case noApi: None
  show ?thesis
  proof (cases "errors_As_HTTPError err")
    case (Some vh)
    with noApi show ?thesis
      by (cases vh) (simp add: classify_def NewApiError_def)
  next
    case None
    with noApi show ?thesis
      by (simp add: classify_def NewNotFoundError_def NewBadRequestError_def NewApiError_def)
  qed
qed

theorem classify_total_priority_witness:
  "fst (classify True (WrapError ''query: '' (ApiErrorPtr 403 ''Forbidden.'' (AnyString ''raw''))) [])
     = \<lparr>Code = 403, Message = ''Forbidden.'', rawData = AnyString ''raw''\<rparr> \<and>
   Code (fst (classify False ErrNotFound [])) = 404 \<and>
   Message (fst (classify False ErrNotFound [])) = ''Not Found'' \<and>
   Message (fst (classify False (HTTPErrorPtr 418 (MsgInt 7) None) [])) = ''7'' \<and>
   Code (fst (classify False (WrapError ''find: '' ErrNoRows) [])) = 404 \<and>
   Code (fst (classify False (ErrorString ''boom'') [])) = 400"
  using classify_total_priority [of "WrapError ''query: '' (ApiErrorPtr 403 ''Forbidden.'' (AnyString ''raw''))" True "[]"]
    classify_total_priority [of ErrNotFound False "[]"]
    classify_total_priority [of "HTTPErrorPtr 418 (MsgInt 7) None" False "[]"]
    classify_total_priority [of "WrapError ''find: '' ErrNoRows" False "[]"]
    classify_total_priority [of "ErrorString ''boom''" False "[]"]
  by (simp add: Itoa_def)

subsection \<open>The hook passes\<close>

lemma run_handlers_append:
  "run_handlers (hs @ ks) e =
     (case run_handlers hs e of
        (Some err, e') \<Rightarrow> (Some err, e')
      | (None, e') \<Rightarrow> run_handlers ks e')"
  by (induction hs arbitrary: e) (auto split: prod.splits option.splits)

lemma run_handlers_single: "run_handlers [t] e = t e"
  by (auto split: prod.splits option.splits)

lemma Trigger_terminal:
  "Trigger hs e [t] =
     (case run_handlers hs e of
        (Some err, e') \<Rightarrow> (Some err, e')
      | (None, e') \<Rightarrow> t e')"
  unfolding Trigger_def run_handlers_append run_handlers_single ..

lemma Trigger_plain: "Trigger hs e [] = run_handlers hs e"
  by (simp add: Trigger_def)

subsection \<open>The terminal action\<close>

lemma send_error_response_committed:
  "Committed (HttpContext e) \<Longrightarrow> send_error_response e = (None, e)"
  by (simp add: send_error_response_def)


lemma send_error_response_step:
  "\<not> Committed (HttpContext e) \<Longrightarrow>
   (\<not> Committed (HttpContext (snd (send_error_response e))) \<and>
    Writes (HttpContext (snd (send_error_response e))) = Writes (HttpContext e)) \<or>
   (Committed (HttpContext (snd (send_error_response e))) \<and>
    (\<exists>w. Writes (HttpContext (snd (send_error_response e))) = Writes (HttpContext e) @ [w]))"
  by (simp add: send_error_response_def NoContent_def JSON_def Let_def)

lemma send_error_response_discipline: "keeps_write_discipline send_error_response"
  unfolding keeps_write_discipline_def
proof
  fix e
  show "(Committed (HttpContext e) \<longrightarrow> Committed (HttpContext (snd (send_error_response e)))) \<and>
        (Writes (HttpContext (snd (send_error_response e))) = Writes (HttpContext e) \<or>
         (\<not> Committed (HttpContext e) \<and> Committed (HttpContext (snd (send_error_response e))) \<and>
          (\<exists>w. Writes (HttpContext (snd (send_error_response e))) = Writes (HttpContext e) @ [w])))"
  proof (cases "Committed (HttpContext e)")
    case True
    then show ?thesis by (simp add: send_error_response_committed)
  next
    case False
    then show ?thesis using send_error_response_step [of e] by auto
  qed
qed

subsection \<open>At most one write\<close>

lemma discipline_step:
  assumes "keeps_write_discipline h" and "wrote_at_most_once ws (HttpContext e)"
  shows "wrote_at_most_once ws (HttpContext (snd (h e)))"
proof -
  from assms(1) have pres: "Committed (HttpContext e) \<Longrightarrow> Committed (HttpContext (snd (h e)))"
    and step: "Writes (HttpContext (snd (h e))) = Writes (HttpContext e) \<or>
           (\<not> Committed (HttpContext e) \<and> Committed (HttpContext (snd (h e))) \<and>
            (\<exists>w. Writes (HttpContext (snd (h e))) = Writes (HttpContext e) @ [w]))"
    unfolding keeps_write_discipline_def by blast+
  from assms(2) consider
      (none) "Writes (HttpContext e) = ws"
    | (one) "Committed (HttpContext e)" "\<exists>w. Writes (HttpContext e) = ws @ [w]"
    unfolding wrote_at_most_once_def by blast
  then show ?thesis
  proof cases
    case none
    with step show ?thesis unfolding wrote_at_most_once_def by auto
  next
    case one
    with step pres show ?thesis unfolding wrote_at_most_once_def by auto
  qed
qed

lemma discipline_run:
  assumes "\<forall>h \<in> set hs. keeps_write_discipline h" and "wrote_at_most_once ws (HttpContext e)"
  shows "wrote_at_most_once ws (HttpContext (snd (run_handlers hs e)))"
  using assms
proof (induction hs arbitrary: e)
  case Nil
  then show ?case by simp
next
  case (Cons h hs)
  from Cons.prems have h: "keeps_write_discipline h" and hs: "\<forall>k \<in> set hs. keeps_write_discipline k"
    by simp_all
  have inv: "wrote_at_most_once ws (HttpContext (snd (h e)))"
    using discipline_step [OF h Cons.prems(2)] .
  show ?case
  proof (cases "h e")
    case (Pair r e')
    with inv have inv': "wrote_at_most_once ws (HttpContext e')" by simp
    show ?thesis
    proof (cases r)
      case None
      with Pair Cons.IH [OF hs inv'] show ?thesis by simp
    next
      case (Some err)
      with Pair inv' show ?thesis by simp
    qed
  qed
qed

text \<open>
  C2. A response that is committed when the handler is called is left as it is: no hook
  runs and nothing is written. The terminal action of the before pass looks at the flag
  again and does nothing on a committed response. So, with hooks that keep the write
  discipline themselves, the whole handling of an error writes the response at most once.
\<close>

theorem HTTPErrorHandler_writes_once:
  "(Committed c \<longrightarrow> fst (HTTPErrorHandler ap c err lg) = c) \<and>
   (Committed (HttpContext e) \<longrightarrow> send_error_response e = (None, e)) \<and>
   ((\<forall>h \<in> set (OnBeforeApiError ap) \<union> set (OnAfterApiError ap). keeps_write_discipline h) \<longrightarrow>
      wrote_at_most_once (Writes c) (fst (HTTPErrorHandler ap c err lg)))"
proof (intro conjI impI)
  assume "Committed c"
  then show "fst (HTTPErrorHandler ap c err lg) = c"
    by (cases err) (simp_all add: HTTPErrorHandler_def)
next
  assume "Committed (HttpContext e)"
  then show "send_error_response e = (None, e)" by (rule send_error_response_committed)
next
  assume hooks: "\<forall>h \<in> set (OnBeforeApiError ap) \<union> set (OnAfterApiError ap). keeps_write_discipline h"
  show "wrote_at_most_once (Writes c) (fst (HTTPErrorHandler ap c err lg))"
  proof (cases err)
    case None
    then show ?thesis by (simp add: HTTPErrorHandler_def wrote_at_most_once_def)
  next
    case (Some er)
    show ?thesis
    proof (cases "Committed c")
      case True
      with Some show ?thesis by (simp add: HTTPErrorHandler_def wrote_at_most_once_def)
    next
      case False
      obtain apiErr lg1 where cl: "classify (IsDebug ap) er lg = (apiErr, lg1)"
        by (cases "classify (IsDebug ap) er lg")
      let ?ev = "\<lparr>HttpContext = c, Error = apiErr, ApiErr = apiErr\<rparr>"
      obtain hookErr event1 where
        bf: "Trigger (OnBeforeApiError ap) ?ev [send_error_response] = (hookErr, event1)"
        by (cases "Trigger (OnBeforeApiError ap) ?ev [send_error_response]")
      obtain err2 event2 where af: "Trigger (OnAfterApiError ap) event1 [] = (err2, event2)"
        by (cases "Trigger (OnAfterApiError ap) event1 []")
      have start: "wrote_at_most_once (Writes c) (HttpContext ?ev)"
        by (simp add: wrote_at_most_once_def)
      have "\<forall>h \<in> set (OnBeforeApiError ap @ [send_error_response]). keeps_write_discipline h"
        using hooks send_error_response_discipline by auto
      from discipline_run [OF this start] bf
      have inv1: "wrote_at_most_once (Writes c) (HttpContext event1)"
        by (simp add: Trigger_def)
      have "\<forall>h \<in> set (OnAfterApiError ap). keeps_write_discipline h"
        using hooks by auto
      from discipline_run [OF this inv1] af
      have inv2: "wrote_at_most_once (Writes c) (HttpContext event2)"
        by (simp add: Trigger_def)
      from Some False cl bf af inv1 inv2 show ?thesis
        by (simp add: HTTPErrorHandler_def)
    qed
  qed
qed

theorem HTTPErrorHandler_writes_once_witness:
  "fst (HTTPErrorHandler
          \<lparr>IsDebug = True,
           OnBeforeApiError =
             [\<lambda>e. if Committed (HttpContext e) then (None, e)
                   else (None, e\<lparr>HttpContext := (HttpContext e)
                           \<lparr>Committed := True, Writes := Writes (HttpContext e) @ [(503, NoBody)]\<rparr>\<rparr>)],
           OnAfterApiError = [\<lambda>e. (None, e)]\<rparr>
          \<lparr>Method = ''GET'', Committed = True, Writes = [(200, FileBody ''ok'')], ConnErr = None, Panic = None\<rparr>
          (Some ErrNoRows) [])
     = \<lparr>Method = ''GET'', Committed = True, Writes = [(200, FileBody ''ok'')], ConnErr = None, Panic = None\<rparr> \<and>
   send_error_response
     \<lparr>HttpContext = \<lparr>Method = ''GET'', Committed = True, Writes = [(200, FileBody ''ok'')], ConnErr = None, Panic = None\<rparr>,
      Error = NewNotFoundError [] AnyNil, ApiErr = NewNotFoundError [] AnyNil\<rparr>
     = (None, \<lparr>HttpContext = \<lparr>Method = ''GET'', Committed = True, Writes = [(200, FileBody ''ok'')], ConnErr = None, Panic = None\<rparr>,
               Error = NewNotFoundError [] AnyNil, ApiErr = NewNotFoundError [] AnyNil\<rparr>) \<and>
   wrote_at_most_once []
     (fst (HTTPErrorHandler
          \<lparr>IsDebug = True,
           OnBeforeApiError =
             [\<lambda>e. if Committed (HttpContext e) then (None, e)
                   else (None, e\<lparr>HttpContext := (HttpContext e)
                           \<lparr>Committed := True, Writes := Writes (HttpContext e) @ [(503, NoBody)]\<rparr>\<rparr>)],
           OnAfterApiError = [\<lambda>e. (None, e)]\<rparr>
          \<lparr>Method = ''GET'', Committed = False, Writes = [], ConnErr = None, Panic = None\<rparr>
          (Some ErrNoRows) []))"
proof -
  let ?responder = "\<lambda>e. if Committed (HttpContext e) then (None :: go_error option, e)
                   else (None, e\<lparr>HttpContext := (HttpContext e)
                           \<lparr>Committed := True, Writes := Writes (HttpContext e) @ [(503, NoBody)]\<rparr>\<rparr>)"
  let ?ap = "\<lparr>IsDebug = True, OnBeforeApiError = [?responder],
              OnAfterApiError = [\<lambda>e. (None :: go_error option, e)]\<rparr>"
  let ?done = "\<lparr>Method = ''GET'', Committed = True, Writes = [(200, FileBody ''ok'')], ConnErr = None, Panic = None\<rparr>"
  let ?fresh = "\<lparr>Method = ''GET'', Committed = False, Writes = [], ConnErr = None, Panic = None\<rparr>"
  have hooks: "\<forall>h \<in> set (OnBeforeApiError ?ap) \<union> set (OnAfterApiError ?ap). keeps_write_discipline h"
    by (simp add: keeps_write_discipline_def)
  from HTTPErrorHandler_writes_once
         [of ?done ?ap "Some ErrNoRows" "[]"
             "\<lparr>HttpContext = ?done, Error = NewNotFoundError [] AnyNil,
               ApiErr = NewNotFoundError [] AnyNil\<rparr>"]
  have a: "fst (HTTPErrorHandler ?ap ?done (Some ErrNoRows) []) = ?done"
    and b: "send_error_response \<lparr>HttpContext = ?done, Error = NewNotFoundError [] AnyNil,
                                 ApiErr = NewNotFoundError [] AnyNil\<rparr>
              = (None, \<lparr>HttpContext = ?done, Error = NewNotFoundError [] AnyNil,
                        ApiErr = NewNotFoundError [] AnyNil\<rparr>)"
    by simp_all
  from HTTPErrorHandler_writes_once [of ?fresh ?ap "Some ErrNoRows" "[]"] hooks
  have c: "wrote_at_most_once (Writes ?fresh) (fst (HTTPErrorHandler ?ap ?fresh (Some ErrNoRows) []))"
    by blast
  from a b c show ?thesis by simp
qed

subsection \<open>What is written\<close>





subsection \<open>After the before pass\<close>

text \<open>
  C7. When every before hook has succeeded and the terminal action fails, the handler
  ends there: it leaves the context as the failed write left it, with that one write
  attempt and no other, adds the failure to the log in debug mode only, and gives the
  same result whatever the after hooks are, so none of them ran. The handler calls
  neither itself nor the classifier again.
\<close>

theorem terminal_failure_is_final:
  assumes "\<not> Committed c"
    and "classify (IsDebug ap) err lg = (apiErr, lg1)"
    and "run_handlers (OnBeforeApiError ap)
           \<lparr>HttpContext = c, Error = apiErr, ApiErr = apiErr\<rparr> = (None, e0)"
    and "send_error_response e0 = (Some hookErr, e1)"
  shows "HTTPErrorHandler ap c (Some err) lg =
           (HttpContext e1, if IsDebug ap then lg1 @ [[AnyError hookErr]] else lg1) \<and>
         HTTPErrorHandler (ap\<lparr>OnAfterApiError := hs\<rparr>) c (Some err) lg =
           HTTPErrorHandler ap c (Some err) lg \<and>
         Writes (HttpContext e1) =
           Writes (HttpContext e0) @
             [(if Code (ApiErr e0) = 0 then 200 else Code (ApiErr e0),
               JSONBody (api_error_json (ApiErr e0)))]"
proof -
  from assms(3,4)
  have bf: "Trigger (OnBeforeApiError ap) \<lparr>HttpContext = c, Error = apiErr, ApiErr = apiErr\<rparr>
              [send_error_response] = (Some hookErr, e1)"
    by (simp add: Trigger_terminal)
  from assms(1,2) bf
  have res: "HTTPErrorHandler ap c (Some err) lg =
           (HttpContext e1, if IsDebug ap then lg1 @ [[AnyError hookErr]] else lg1)"
    by (simp add: HTTPErrorHandler_def error_arg_def)
  from assms(1,2) bf
  have "HTTPErrorHandler (ap\<lparr>OnAfterApiError := hs\<rparr>) c (Some err) lg =
           (HttpContext e1, if IsDebug ap then lg1 @ [[AnyError hookErr]] else lg1)"
    by (simp add: HTTPErrorHandler_def error_arg_def)
  with res have indep: "HTTPErrorHandler (ap\<lparr>OnAfterApiError := hs\<rparr>) c (Some err) lg =
           HTTPErrorHandler ap c (Some err) lg"
    by simp
  have once: "Writes (HttpContext e1) =
           Writes (HttpContext e0) @
             [(if Code (ApiErr e0) = 0 then 200 else Code (ApiErr e0),
               JSONBody (api_error_json (ApiErr e0)))]"
  proof (cases "Committed (HttpContext e0)")
    case True
    with assms(4) show ?thesis by (simp add: send_error_response_def)
  next
    case uncommitted: False
    show ?thesis
    proof (cases "Method (HttpContext e0) = ''HEAD''")
      case True
      with uncommitted assms(4) show ?thesis
        by (simp add: send_error_response_def NoContent_def)
    next
      case False
      with uncommitted assms(4) show ?thesis
        by (auto simp add: send_error_response_def JSON_def Let_def split: if_splits)
    qed
  qed
  from res indep once show ?thesis by simp
qed

theorem terminal_failure_is_final_witness:
  "HTTPErrorHandler
     \<lparr>IsDebug = True, OnBeforeApiError = [\<lambda>e. (None, e)],
      OnAfterApiError = [\<lambda>e. (None, e\<lparr>HttpContext := (HttpContext e)\<lparr>Writes := []\<rparr>\<rparr>)]\<rparr>
     \<lparr>Method = ''GET'', Committed = False, Writes = [], ConnErr = Some (ErrorString ''broken pipe''), Panic = None\<rparr>
     (Some (ApiErrorPtr 403 ''Forbidden.'' AnyNil)) []
   = (\<lparr>Method = ''GET'', Committed = True,
       Writes = [(403, JSONBody (JObject [(''code'', JNumber 403), (''message'', JString ''Forbidden.'')]))],
       ConnErr = Some (ErrorString ''broken pipe''), Panic = None\<rparr>,
      [[AnyError (ErrorString ''broken pipe'')]])"
proof -
  let ?ap = "\<lparr>IsDebug = True, OnBeforeApiError = [\<lambda>e. (None :: go_error option, e)],
      OnAfterApiError = [\<lambda>e. (None :: go_error option, e\<lparr>HttpContext := (HttpContext e)\<lparr>Writes := []\<rparr>\<rparr>)]\<rparr>"
  let ?c = "\<lparr>Method = ''GET'', Committed = False, Writes = [], ConnErr = Some (ErrorString ''broken pipe''), Panic = None\<rparr>"
  let ?a = "\<lparr>Code = 403, Message = ''Forbidden.'', rawData = AnyNil\<rparr>"
  let ?e0 = "\<lparr>HttpContext = ?c, Error = ?a, ApiErr = ?a\<rparr>"
  let ?e1 = "\<lparr>HttpContext = ?c\<lparr>Committed := True,
                 Writes := [(403, JSONBody (api_error_json ?a))]\<rparr>, Error = ?a, ApiErr = ?a\<rparr>"
  have h1: "\<not> Committed ?c" by simp
  have h2: "classify (IsDebug ?ap) (ApiErrorPtr 403 ''Forbidden.'' AnyNil) [] = (?a, [])"
    by (simp add: classify_def)
  have h3: "run_handlers (OnBeforeApiError ?ap) \<lparr>HttpContext = ?c, Error = ?a, ApiErr = ?a\<rparr>
              = (None, ?e0)"
    by simp
  have h4: "send_error_response ?e0 = (Some (ErrorString ''broken pipe''), ?e1)"
    by (simp add: send_error_response_def JSON_def valid_status_def)
  from terminal_failure_is_final [OF h1 h2 h3 h4]
  show ?thesis by (simp add: api_error_json_def)
qed

text \<open>
  The ways the handler ends after the before pass: when the before pass returned no
  error and no write has panicked, the after pass runs, and the line logged for a
  failed after hook is \<^verbatim>\<open>hookErr\<close>, which is nil on that branch; when the before pass
  returned an error, that error is logged and the after pass does not run.
\<close>

lemma after_pass_iff:
  assumes "\<not> Committed c"
    and "classify (IsDebug ap) err lg = (apiErr, lg1)"
    and "Trigger (OnBeforeApiError ap) \<lparr>HttpContext = c, Error = apiErr, ApiErr = apiErr\<rparr>
           [send_error_response] = (hookErr, e1)"
    and "Panic (HttpContext e1) = None"
  shows "HTTPErrorHandler ap c (Some err) lg =
     (if hookErr = None
      then (HttpContext (snd (run_handlers (OnAfterApiError ap) e1)),
            if fst (run_handlers (OnAfterApiError ap) e1) \<noteq> None \<and> IsDebug ap then lg1 @ [[AnyNil]] else lg1)
      else (HttpContext e1, if IsDebug ap then lg1 @ [[error_arg hookErr]] else lg1))"
  using assms
  by (cases "run_handlers (OnAfterApiError ap) e1")
     (simp add: HTTPErrorHandler_def Trigger_plain error_arg_def)

text \<open>
  C6. In debug mode, with no before hook and one after hook that fails with
  "observer failed", a GET request whose handler returned a 403 \<open>ApiError\<close> gets its
  JSON answer, the after hook runs, and the log gains one line: \<^verbatim>\<open><nil>\<close>, not the
  failure of the after hook. Line 106 prints \<^verbatim>\<open>hookErr\<close> where the failure is \<^verbatim>\<open>err\<close>.
\<close>

theorem after_failure_logged_as_nil:
  "HTTPErrorHandler
     \<lparr>IsDebug = True, OnBeforeApiError = [],
      OnAfterApiError = [\<lambda>e. (Some (ErrorString ''observer failed''), e)]\<rparr>
     \<lparr>Method = ''GET'', Committed = False, Writes = [], ConnErr = None, Panic = None\<rparr>
     (Some (ApiErrorPtr 403 ''Forbidden.'' AnyNil)) []
   = (\<lparr>Method = ''GET'', Committed = True,
       Writes = [(403, JSONBody (JObject [(''code'', JNumber 403), (''message'', JString ''Forbidden.'')]))],
       ConnErr = None, Panic = None\<rparr>,
      [[AnyNil]])"
  by (simp add: HTTPErrorHandler_def classify_def Trigger_def send_error_response_def JSON_def
      api_error_json_def error_arg_def valid_status_def)

section \<open>Results on the static handler\<close>

subsection \<open>Unescaping and cleaning\<close>

lemma PathUnescape_error:
  "PathUnescape p = Inl e \<Longrightarrow> \<exists>s. e = EscapeError s"
proof (induction p arbitrary: e rule: PathUnescape.induct)
  case 1
  then show ?case by simp
next
  case (2 c cs)
  show ?case
  proof (cases "c = CHR ''%''")
    case pct: True
    show ?thesis
    proof (cases cs)
      case Nil
      with pct "2.prems" show ?thesis by auto
    next
      case (Cons a as)
      note cs = this
      show ?thesis
      proof (cases as)
        case Nil
        with pct cs "2.prems" show ?thesis by auto
      next
        case (Cons b rest)
        show ?thesis
        proof (cases "ishex a \<and> ishex b")
          case True
          with pct cs Cons "2.prems" "2.IH"(1) [of a as b rest] show ?thesis
            by (auto split: sum.splits)
        next
          case False
          with pct cs Cons "2.prems" show ?thesis by auto
        qed
      qed
    qed
  next
    case False
    with "2.prems" "2.IH"(2) show ?thesis by (auto split: sum.splits)
  qed
qed






lemma ValidPath_no_dotdot:
  "''..'' \<in> set (split_slash name) \<Longrightarrow> \<not> ValidPath name"
proof
  assume elem: "''..'' \<in> set (split_slash name)" and valid: "ValidPath name"
  from valid consider (dot) "name = ''.''"
    | (elems) "list_all (\<lambda>elem. elem \<noteq> [] \<and> elem \<noteq> ''.'' \<and> elem \<noteq> ''..'') (split_slash name)"
    unfolding ValidPath_def by blast
  then show False
  proof cases
    case dot
    with elem show False by simp
  next
    case elems
    with elem show False by (auto simp add: list_all_iff)
  qed
qed








lemma split_slash_rooted:
  "HasPrefix name ''/'' \<Longrightarrow> [] \<in> set (split_slash name)"
  by (cases name) (auto simp add: HasPrefix_def)





subsection \<open>The index fallback\<close>

text \<open>
  C4. When the file named by the request is not found: with \<open>indexFallback\<close> on and an
  \<^verbatim>\<open>index.html\<close> in the file system, that document is served with status 200; with
  \<open>indexFallback\<close> off, or with no \<^verbatim>\<open>index.html\<close>, the handler returns
  \<^verbatim>\<open>echo.ErrNotFound\<close>, which the classifier makes a 404 and the error handler answers
  with the JSON object of code 404.
\<close>

theorem static_index_fallback:
  assumes "PathUnescape p = Inr q"
    and "name = ToSlash (Clean (TrimPrefix q ''/''))"
    and "FileFS name fileSystem c = (Some ErrNotFound, c1)"
  shows "(indexFallback \<and> fileSystem ''index.html'' = Some f \<and> \<not> IsDir f \<and> ReadSeeker f \<longrightarrow>
            StaticDirectoryHandler FileFS fileSystem indexFallback p c =
              (None, c\<lparr>Committed := True,
                       Writes := Writes c @
                         [(200, if Method c = ''HEAD'' then NoBody else FileBody (Contents f))]\<rparr>)) \<and>
         (\<not> indexFallback \<or> fileSystem ''index.html'' = None \<longrightarrow>
            StaticDirectoryHandler FileFS fileSystem indexFallback p c = (Some ErrNotFound, c)) \<and>
         Code (fst (classify debug ErrNotFound lg)) = 404 \<and>
         (\<not> Committed c \<and> Method c \<noteq> ''HEAD'' \<longrightarrow>
            Writes (fst (HTTPErrorHandler \<lparr>IsDebug = debug, OnBeforeApiError = [], OnAfterApiError = []\<rparr>
                           c (Some ErrNotFound) lg)) =
              Writes c @ [(404, JSONBody (JObject [(''code'', JNumber 404),
                                                   (''message'', JString ''Not Found'')]))])"
proof -
  from assms(3) have same: "c1 = c"
    by (auto simp add: FileFS_def serve_file_def split: option.splits if_splits)
  have fallback: "StaticDirectoryHandler FileFS fileSystem indexFallback p c =
      (if indexFallback then FileFS ''index.html'' fileSystem c else (Some ErrNotFound, c))"
    using assms same by (simp add: StaticDirectoryHandler_def)
  have served: "StaticDirectoryHandler FileFS fileSystem indexFallback p c =
              (None, c\<lparr>Committed := True,
                       Writes := Writes c @
                         [(200, if Method c = ''HEAD'' then NoBody else FileBody (Contents f))]\<rparr>)"
    if "indexFallback \<and> fileSystem ''index.html'' = Some f \<and> \<not> IsDir f \<and> ReadSeeker f"
    using that fallback by (simp add: FileFS_def serve_file_def ServeContent_def)
  have missing: "StaticDirectoryHandler FileFS fileSystem indexFallback p c = (Some ErrNotFound, c)"
    if "\<not> indexFallback \<or> fileSystem ''index.html'' = None"
    using that fallback by (auto simp add: FileFS_def)
  have code: "Code (fst (classify debug ErrNotFound lg)) = 404"
    by (simp add: classify_def NewApiError_def)
  have envelope: "Writes (fst (HTTPErrorHandler \<lparr>IsDebug = debug, OnBeforeApiError = [], OnAfterApiError = []\<rparr>
                           c (Some ErrNotFound) lg)) =
              Writes c @ [(404, JSONBody (JObject [(''code'', JNumber 404),
                                                   (''message'', JString ''Not Found'')]))]"
    if "\<not> Committed c \<and> Method c \<noteq> ''HEAD''"
    using that
    by (cases "ConnErr c")
       (simp_all add: HTTPErrorHandler_def classify_def NewApiError_def Trigger_def
          send_error_response_def JSON_def api_error_json_def valid_status_def)
  from served missing code envelope show ?thesis by blast
qed

theorem static_index_fallback_witness:
  "StaticDirectoryHandler FileFS
     (\<lambda>n. if n = ''index.html'' then Some \<lparr>IsDir = False, ReadSeeker = True, Contents = ''<html>''\<rparr>
          else None)
     True ''/users/42'' \<lparr>Method = ''GET'', Committed = False, Writes = [], ConnErr = None, Panic = None\<rparr>
   = (None, \<lparr>Method = ''GET'', Committed = True, Writes = [(200, FileBody ''<html>'')], ConnErr = None, Panic = None\<rparr>) \<and>
   StaticDirectoryHandler FileFS
     (\<lambda>n. if n = ''index.html'' then Some \<lparr>IsDir = False, ReadSeeker = True, Contents = ''<html>''\<rparr>
          else None)
     False ''/users/42'' \<lparr>Method = ''GET'', Committed = False, Writes = [], ConnErr = None, Panic = None\<rparr>
   = (Some ErrNotFound, \<lparr>Method = ''GET'', Committed = False, Writes = [], ConnErr = None, Panic = None\<rparr>) \<and>
   StaticDirectoryHandler FileFS (\<lambda>n. None)
     True ''/users/42'' \<lparr>Method = ''GET'', Committed = False, Writes = [], ConnErr = None, Panic = None\<rparr>
   = (Some ErrNotFound, \<lparr>Method = ''GET'', Committed = False, Writes = [], ConnErr = None, Panic = None\<rparr>) \<and>
   Writes (fst (HTTPErrorHandler \<lparr>IsDebug = False, OnBeforeApiError = [], OnAfterApiError = []\<rparr>
                  \<lparr>Method = ''GET'', Committed = False, Writes = [], ConnErr = None, Panic = None\<rparr>
                  (Some ErrNotFound) []))
   = [(404, JSONBody (JObject [(''code'', JNumber 404), (''message'', JString ''Not Found'')]))]"
proof -
  let ?index = "\<lparr>IsDir = False, ReadSeeker = True, Contents = ''<html>''\<rparr>"
  let ?fs = "\<lambda>n. if n = ''index.html'' then Some ?index else None"
  let ?none = "\<lambda>n :: string. None :: fs_file option"
  let ?c = "\<lparr>Method = ''GET'', Committed = False, Writes = [], ConnErr = None, Panic = None\<rparr>"
  have ok: "PathUnescape ''/users/42'' = Inr ''/users/42''"
    by simp
  have name: "''users/42'' = ToSlash (Clean (TrimPrefix ''/users/42'' ''/''))"
    by (simp add: ToSlash_def Clean_def TrimPrefix_def HasPrefix_def)
  have miss: "FileFS ''users/42'' ?fs ?c = (Some ErrNotFound, ?c)"
    by (simp add: FileFS_def)
  have miss': "FileFS ''users/42'' ?none ?c = (Some ErrNotFound, ?c)"
    by (simp add: FileFS_def)
  from static_index_fallback [OF ok name miss, of True ?index False "[]"]
  have a: "StaticDirectoryHandler FileFS ?fs True ''/users/42'' ?c
      = (None, \<lparr>Method = ''GET'', Committed = True, Writes = [(200, FileBody ''<html>'')], ConnErr = None, Panic = None\<rparr>)"
    and d: "Writes (fst (HTTPErrorHandler \<lparr>IsDebug = False, OnBeforeApiError = [], OnAfterApiError = []\<rparr>
                  ?c (Some ErrNotFound) []))
      = [(404, JSONBody (JObject [(''code'', JNumber 404), (''message'', JString ''Not Found'')]))]"
    by simp_all
  from static_index_fallback [OF ok name miss, of False ?index False "[]"]
  have b: "StaticDirectoryHandler FileFS ?fs False ''/users/42'' ?c = (Some ErrNotFound, ?c)"
    by simp
  from static_index_fallback [OF ok name miss', of True ?index False "[]"]
  have c: "StaticDirectoryHandler FileFS ?none True ''/users/42'' ?c = (Some ErrNotFound, ?c)"
    by simp
  from a b c d show ?thesis by simp
qed

text \<open>
  C10. A path that cannot be unescaped is answered with the wrapped \<^verbatim>\<open>EscapeError\<close>, which
  is not a not-found error, and the file system is not touched. Any error of \<^verbatim>\<open>FileFS\<close>
  that is not \<^verbatim>\<open>echo.ErrNotFound\<close> is returned as it is, with the context as \<^verbatim>\<open>FileFS\<close>
  left it, whether \<open>indexFallback\<close> is on or off: \<^verbatim>\<open>index.html\<close> is not served instead.
  This holds for every implementation of \<^verbatim>\<open>FileFS\<close>.
\<close>

theorem static_fallback_only_on_not_found:
  "(\<forall>e. PathUnescape p = Inl e \<longrightarrow>
      StaticDirectoryHandler file_fs fileSystem indexFallback p c =
        (Some (WrapError ''failed to unescape path variable: '' e), c) \<and>
      \<not> errors_Is (WrapError ''failed to unescape path variable: '' e) ErrNotFound) \<and>
   (\<forall>q fe c1. PathUnescape p = Inr q \<and>
      file_fs (ToSlash (Clean (TrimPrefix q ''/''))) fileSystem c = (Some fe, c1) \<and>
      \<not> errors_Is fe ErrNotFound \<longrightarrow>
      StaticDirectoryHandler file_fs fileSystem indexFallback p c = (Some fe, c1))"
proof (intro conjI allI impI)
  fix e
  assume bad: "PathUnescape p = Inl e"
  then show "StaticDirectoryHandler file_fs fileSystem indexFallback p c =
        (Some (WrapError ''failed to unescape path variable: '' e), c)"
    by (simp add: StaticDirectoryHandler_def)
  from PathUnescape_error [OF bad] obtain s where "e = EscapeError s" ..
  then show "\<not> errors_Is (WrapError ''failed to unescape path variable: '' e) ErrNotFound"
    by simp
next
  fix q fe c1
  assume "PathUnescape p = Inr q \<and>
      file_fs (ToSlash (Clean (TrimPrefix q ''/''))) fileSystem c = (Some fe, c1) \<and>
      \<not> errors_Is fe ErrNotFound"
  then show "StaticDirectoryHandler file_fs fileSystem indexFallback p c = (Some fe, c1)"
    by (simp add: StaticDirectoryHandler_def)
qed

theorem static_fallback_only_on_not_found_witness:
  "StaticDirectoryHandler FileFS
     (\<lambda>n. if n = ''index.html'' then Some \<lparr>IsDir = False, ReadSeeker = True, Contents = ''<html>''\<rparr>
          else if n = ''data.bin'' then Some \<lparr>IsDir = False, ReadSeeker = False, Contents = ''0101''\<rparr>
          else None)
     True ''img/%zz.png'' \<lparr>Method = ''GET'', Committed = False, Writes = [], ConnErr = None, Panic = None\<rparr>
   = (Some (WrapError ''failed to unescape path variable: '' (EscapeError ''%zz'')),
      \<lparr>Method = ''GET'', Committed = False, Writes = [], ConnErr = None, Panic = None\<rparr>) \<and>
   StaticDirectoryHandler FileFS
     (\<lambda>n. if n = ''index.html'' then Some \<lparr>IsDir = False, ReadSeeker = True, Contents = ''<html>''\<rparr>
          else if n = ''data.bin'' then Some \<lparr>IsDir = False, ReadSeeker = False, Contents = ''0101''\<rparr>
          else None)
     True ''/data.bin'' \<lparr>Method = ''GET'', Committed = False, Writes = [], ConnErr = None, Panic = None\<rparr>
   = (Some (ErrorString ''file does not implement io.ReadSeeker''),
      \<lparr>Method = ''GET'', Committed = False, Writes = [], ConnErr = None, Panic = None\<rparr>)"
proof -
  let ?fs = "\<lambda>n. if n = ''index.html'' then Some \<lparr>IsDir = False, ReadSeeker = True, Contents = ''<html>''\<rparr>
          else if n = ''data.bin'' then Some \<lparr>IsDir = False, ReadSeeker = False, Contents = ''0101''\<rparr>
          else None"
  let ?c = "\<lparr>Method = ''GET'', Committed = False, Writes = [], ConnErr = None, Panic = None\<rparr>"
  have bad: "PathUnescape ''img/%zz.png'' = Inl (EscapeError ''%zz'')"
    by (simp add: ishex_def)
  have ok: "PathUnescape ''/data.bin'' = Inr ''/data.bin''"
    by simp
  have name: "ToSlash (Clean (TrimPrefix ''/data.bin'' ''/'')) = ''data.bin''"
    by (simp add: ToSlash_def Clean_def TrimPrefix_def HasPrefix_def)
  have served: "FileFS ''data.bin'' ?fs ?c = (Some (ErrorString ''file does not implement io.ReadSeeker''), ?c)"
    by (simp add: FileFS_def serve_file_def)
  from static_fallback_only_on_not_found [of "''img/%zz.png''" FileFS ?fs True ?c] bad
  have first: "StaticDirectoryHandler FileFS ?fs True ''img/%zz.png'' ?c
      = (Some (WrapError ''failed to unescape path variable: '' (EscapeError ''%zz'')), ?c)"
    by blast
  from static_fallback_only_on_not_found [of "''/data.bin''" FileFS ?fs True ?c] ok name served
  have second: "StaticDirectoryHandler FileFS ?fs True ''/data.bin'' ?c
      = (Some (ErrorString ''file does not implement io.ReadSeeker''), ?c)"
    by simp
  from first second show ?thesis by simp
qed

subsection \<open>Paths that point out of the root\<close>




section \<open>Results on the trailing-slash middleware\<close>

text \<open>
  C8. The middleware leaves every request whose path does not start with \<^verbatim>\<open>/api/\<close> as it
  is. A path that starts with \<^verbatim>\<open>/api/\<close> and ends with a slash loses that one slash, in the
  URL and in the request URI, the query string kept; a path under \<^verbatim>\<open>/api/\<close> with no
  trailing slash is left as it is.
\<close>

theorem trailing_slash_only_under_api:
  "(\<not> HasPrefix (URLPath r) ''/api/'' \<longrightarrow> RemoveTrailingSlashWithConfig Skipper r = r) \<and>
   (HasPrefix (URLPath r) ''/api/'' \<and> HasSuffix (URLPath r) ''/'' \<longrightarrow>
      URLPath (RemoveTrailingSlashWithConfig Skipper r) = butlast (URLPath r) \<and>
      RequestURI (RemoveTrailingSlashWithConfig Skipper r) =
        (if RawQuery r = [] then butlast (URLPath r) else butlast (URLPath r) @ ''?'' @ RawQuery r) \<and>
      RawQuery (RemoveTrailingSlashWithConfig Skipper r) = RawQuery r) \<and>
   (HasPrefix (URLPath r) ''/api/'' \<and> \<not> HasSuffix (URLPath r) ''/'' \<longrightarrow>
      RemoveTrailingSlashWithConfig Skipper r = r)"
proof (intro conjI impI)
  assume "\<not> HasPrefix (URLPath r) ''/api/''"
  then show "RemoveTrailingSlashWithConfig Skipper r = r"
    by (simp add: RemoveTrailingSlashWithConfig_def Skipper_def)
next
  assume api: "HasPrefix (URLPath r) ''/api/'' \<and> HasSuffix (URLPath r) ''/''"
  then have len: "5 \<le> length (URLPath r)" by (simp add: HasPrefix_def)
  then have cut: "take (nat (int (length (URLPath r)) - 1)) (URLPath r) = butlast (URLPath r)"
    by (simp add: butlast_conv_take nat_diff_distrib')
  from api len cut show "URLPath (RemoveTrailingSlashWithConfig Skipper r) = butlast (URLPath r)"
    by (simp add: RemoveTrailingSlashWithConfig_def Skipper_def Let_def)
  from api len cut show "RequestURI (RemoveTrailingSlashWithConfig Skipper r) =
        (if RawQuery r = [] then butlast (URLPath r) else butlast (URLPath r) @ ''?'' @ RawQuery r)"
    by (simp add: RemoveTrailingSlashWithConfig_def Skipper_def Let_def)
  from api len cut show "RawQuery (RemoveTrailingSlashWithConfig Skipper r) = RawQuery r"
    by (simp add: RemoveTrailingSlashWithConfig_def Skipper_def Let_def)
next
  assume "HasPrefix (URLPath r) ''/api/'' \<and> \<not> HasSuffix (URLPath r) ''/''"
  then show "RemoveTrailingSlashWithConfig Skipper r = r"
    by (simp add: RemoveTrailingSlashWithConfig_def Skipper_def Let_def)
qed

theorem trailing_slash_only_under_api_witness:
  "RemoveTrailingSlashWithConfig Skipper
     \<lparr>URLPath = ''/_/settings/'', RawQuery = ''a=1'', RequestURI = ''/_/settings/?a=1''\<rparr>
   = \<lparr>URLPath = ''/_/settings/'', RawQuery = ''a=1'', RequestURI = ''/_/settings/?a=1''\<rparr> \<and>
   URLPath (RemoveTrailingSlashWithConfig Skipper
     \<lparr>URLPath = ''/api/users/'', RawQuery = ''a=1'', RequestURI = ''/api/users/?a=1''\<rparr>)
   = ''/api/users'' \<and>
   RequestURI (RemoveTrailingSlashWithConfig Skipper
     \<lparr>URLPath = ''/api/users/'', RawQuery = ''a=1'', RequestURI = ''/api/users/?a=1''\<rparr>)
   = ''/api/users?a=1'' \<and>
   RemoveTrailingSlashWithConfig Skipper
     \<lparr>URLPath = ''/api/users'', RawQuery = [], RequestURI = ''/api/users''\<rparr>
   = \<lparr>URLPath = ''/api/users'', RawQuery = [], RequestURI = ''/api/users''\<rparr>"
  using trailing_slash_only_under_api
          [of "\<lparr>URLPath = ''/_/settings/'', RawQuery = ''a=1'', RequestURI = ''/_/settings/?a=1''\<rparr>"]
        trailing_slash_only_under_api
          [of "\<lparr>URLPath = ''/api/users/'', RawQuery = ''a=1'', RequestURI = ''/api/users/?a=1''\<rparr>"]
        trailing_slash_only_under_api
          [of "\<lparr>URLPath = ''/api/users'', RawQuery = [], RequestURI = ''/api/users''\<rparr>"]
  by (simp add: HasPrefix_def HasSuffix_def)

end
